theory Spec2Isabelle
  imports Complex_Main "HOL-Library.AList"
begin

section \<open>Metrics (metrics.py)\<close>

text \<open>
  Python floats are modelled as real numbers: comparisons and branches are those of the
  source, arithmetic is exact (no rounding, no infinities, no NaN). \<open>Optional[float]\<close>
  is \<open>real option\<close>, with \<open>None\<close> for Python's \<open>None\<close>.
\<close>

definition calculate_spread :: "real \<Rightarrow> real \<Rightarrow> real option" where
  "calculate_spread best_bid best_ask =
     (if best_bid > 0 \<and> best_ask > 0 \<and> best_ask > best_bid
      then Some (best_ask - best_bid)
      else None)"

definition calculate_mid_price :: "real \<Rightarrow> real \<Rightarrow> real option" where
  "calculate_mid_price best_bid best_ask =
     (if best_bid > 0 \<and> best_ask > 0 \<and> best_ask > best_bid
      then Some ((best_ask + best_bid) / 2)
      else None)"

definition calculate_order_book_imbalance :: "real \<Rightarrow> real \<Rightarrow> real option" where
  "calculate_order_book_imbalance bid_volume ask_volume =
     (let total_volume = bid_volume + ask_volume
      in if total_volume > 0
         then Some ((bid_volume - ask_volume) / total_volume)
         else None)"

text \<open>
  A trade is the dictionary of a trade event. The metrics read three of its entries:
  \<open>float(trade['p'])\<close>, \<open>float(trade['q'])\<close> and \<open>trade['T']\<close> (an integer,
  milliseconds). The record holds the values read.
\<close>

record trade =
  trade_p :: real
  trade_q :: real
  trade_T :: int

text \<open>
  The slice \<open>xs[start:]\<close> of Python: a negative start counts from the end, and a
  start before the beginning or after the end is clamped.
\<close>

definition slice_from :: "'a list \<Rightarrow> int \<Rightarrow> 'a list" where
  "slice_from xs start =
     (if start < 0 then drop (nat (int (length xs) + start)) xs
      else drop (nat start) xs)"

definition calculate_vwap :: "trade list \<Rightarrow> int \<Rightarrow> real option" where
  "calculate_vwap trades window_size_trades =
     (if trades = [] \<or> window_size_trades \<le> 0 then None
      else
        let relevant_trades = slice_from trades (- window_size_trades);
            total_value = sum_list (map (\<lambda>t. trade_p t * trade_q t) relevant_trades);
            total_volume = sum_list (map trade_q relevant_trades)
        in if total_volume = 0 then None
           else Some (total_value / total_volume))"

text \<open>
  The loop of \<open>calculate_trade_volume_per_second\<close> over \<open>reversed(trades)\<close>: the first
  argument is what is left of the reversed list, the last one the variable \<open>volume\<close>.
  The \<open>else\<close> branch is the \<open>break\<close>.
\<close>

fun volume_loop :: "trade list \<Rightarrow> int \<Rightarrow> real \<Rightarrow> real" where
  "volume_loop [] cutoff_time_ns volume = volume"
| "volume_loop (t # ts) cutoff_time_ns volume =
     (let trade_time_ms = trade_T t;
          trade_time_ns = trade_time_ms * 1000000
      in if trade_time_ns \<ge> cutoff_time_ns
         then volume_loop ts cutoff_time_ns (volume + trade_q t)
         else volume)"

definition calculate_trade_volume_per_second :: "trade list \<Rightarrow> int \<Rightarrow> int \<Rightarrow> real" where
  "calculate_trade_volume_per_second trades current_time_ns window_seconds =
     (if trades = [] \<or> window_seconds \<le> 0 then 0
      else
        let window_ns = window_seconds * 1000000000;
            cutoff_time_ns = current_time_ns - window_ns
        in volume_loop (rev trades) cutoff_time_ns 0)"

text \<open>
  The trailing volume as the specification words it, with no early exit: the sum of the
  quantity of every trade of the list whose time, in nanoseconds, is at or after the
  cutoff.
\<close>

definition trailing_volume_spec :: "trade list \<Rightarrow> int \<Rightarrow> int \<Rightarrow> real" where
  "trailing_volume_spec trades now_ns window_ns =
     sum_list (map trade_q
       (filter (\<lambda>t. trade_T t * 1000000 \<ge> now_ns - window_ns) trades))"

section \<open>The stream client (feed.py)\<close>

text \<open>
  A decoded message is a dictionary from keys to values. The values the programs read are
  integers (\<open>T\<close>, \<open>u\<close>, the three time stamps) and strings. Conversion of a string by
  \<open>float()\<close> is a library function: a string that \<open>float()\<close> accepts is carried as
  \<open>JDec r\<close>, with \<open>r\<close> the number it converts to, and \<open>JStr\<close> holds every other string.
\<close>

datatype json = JInt int | JDec real | JStr string

type_synonym msg = "string \<rightharpoonup> json"

datatype exn =
    ConnectionClosedError
  | InvalidStatusCode
  | JSONDecodeError
  | TypeError
  | KeyError
  | ValueError
  | OSError

text \<open>
  A received frame, by what \<open>orjson.loads\<close> does with it: it returns a dictionary, it
  returns another JSON value (a list, a number, a string, null), or it raises
  \<open>JSONDecodeError\<close>.
\<close>

datatype frame = Object msg | NonObject | Undecodable

text \<open>
  What the outside does at the suspension points of the client: \<open>websockets.connect\<close>
  succeeds or raises; the \<open>async for\<close> delivers a frame, raises, or ends because the
  connection was closed normally; the task is cancelled.
\<close>

datatype event =
    ConnectOk
  | ConnectFailed exn
  | Frame frame
  | RecvFailed exn
  | RecvDone
  | Cancel

text \<open>
  What the client does that can be observed: it yields a message, it sleeps for a number of
  seconds, it closes the connection on leaving the \<open>async with\<close> block. The messages it
  prints are left out.
\<close>

datatype action = Yielded msg | Slept int | Closed

text \<open>
  \<open>Connecting\<close>: at \<open>websockets.connect\<close>, at the top of the \<open>while True\<close> loop.
  \<open>Connected\<close>: inside the \<open>async for\<close>. \<open>Stopped\<close>: the generator has been cancelled.
\<close>

datatype connection_state = Connecting | Connected | Stopped

record client =
  conn :: connection_state
  backoff_time :: int
  clock_reads :: nat

text \<open>
  The two \<open>except\<close> clauses. Both sleep for the current backoff time and then double it,
  capped at 60; the loop then connects again.
\<close>

definition except_clauses :: "exn \<Rightarrow> client \<Rightarrow> client \<times> action list" where
  "except_clauses e s =
     (if e = ConnectionClosedError \<or> e = InvalidStatusCode
      then (s\<lparr>conn := Connecting, backoff_time := min (backoff_time s * 2) 60\<rparr>,
            [Slept (backoff_time s)])
      else (s\<lparr>conn := Connecting, backoff_time := min (backoff_time s * 2) 60\<rparr>,
            [Slept (backoff_time s)]))"

text \<open>
  An exception raised inside the \<open>async with\<close> block closes the connection on the way
  out and then reaches the \<open>except\<close> clauses.
\<close>

definition raise_in_session :: "exn \<Rightarrow> client \<Rightarrow> client \<times> action list" where
  "raise_in_session e s = (case except_clauses e s of (s', acts) \<Rightarrow> (s', Closed # acts))"

text \<open>
  The body of the \<open>async for\<close>. The monotonic clock is the sequence \<open>clk\<close> of its
  successive readings, and \<open>clock_reads\<close> counts the calls of \<open>time.monotonic_ns\<close> made so
  far. Assigning an item to a decoded value that is not a dictionary raises \<open>TypeError\<close>.
\<close>

definition on_message :: "(nat \<Rightarrow> int) \<Rightarrow> client \<Rightarrow> frame \<Rightarrow> client \<times> action list" where
  "on_message clk s f =
     (let n = clock_reads s;
          ts_before_parse = clk n
      in case f of
           Undecodable \<Rightarrow> raise_in_session JSONDecodeError (s\<lparr>clock_reads := n + 1\<rparr>)
         | NonObject \<Rightarrow>
             (let ts_after_parse = clk (n + 1)
              in raise_in_session TypeError (s\<lparr>clock_reads := n + 2\<rparr>))
         | Object data \<Rightarrow>
             (let ts_after_parse = clk (n + 1);
                  data1 = data(''_ts_before_parse'' \<mapsto> JInt ts_before_parse);
                  data2 = data1(''_ts_after_parse'' \<mapsto> JInt ts_after_parse);
                  data3 = data2(''_ts_received_ws'' \<mapsto> JInt (clk (n + 2)))
              in (s\<lparr>clock_reads := n + 3\<rparr>, [Yielded data3])))"

text \<open>
  One step of the client. An event that cannot happen in the current state (a frame while
  not connected, anything after cancellation) has no successor. \<open>CancelledError\<close> is not
  an \<open>Exception\<close>, so neither \<open>except\<close> clause catches it.
\<close>

definition client_step ::
  "(nat \<Rightarrow> int) \<Rightarrow> client \<Rightarrow> event \<Rightarrow> (client \<times> action list) option" where
  "client_step clk s ev =
     (case conn s of
        Stopped \<Rightarrow> None
      | Connecting \<Rightarrow>
          (case ev of
             ConnectOk \<Rightarrow> Some (s\<lparr>conn := Connected, backoff_time := 1\<rparr>, [])
           | ConnectFailed e \<Rightarrow> Some (except_clauses e s)
           | Cancel \<Rightarrow> Some (s\<lparr>conn := Stopped\<rparr>, [])
           | _ \<Rightarrow> None)
      | Connected \<Rightarrow>
          (case ev of
             Frame f \<Rightarrow> Some (on_message clk s f)
           | RecvFailed e \<Rightarrow> Some (raise_in_session e s)
           | RecvDone \<Rightarrow> Some (s\<lparr>conn := Connecting\<rparr>, [Closed])
           | Cancel \<Rightarrow> Some (s\<lparr>conn := Stopped\<rparr>, [Closed])
           | _ \<Rightarrow> None))"

fun client_run ::
  "(nat \<Rightarrow> int) \<Rightarrow> client \<Rightarrow> event list \<Rightarrow> (client \<times> action list) option" where
  "client_run clk s [] = Some (s, [])"
| "client_run clk s (ev # evs) =
     (case client_step clk s ev of
        None \<Rightarrow> None
      | Some (s', acts) \<Rightarrow>
          (case client_run clk s' evs of
             None \<Rightarrow> None
           | Some (s'', acts') \<Rightarrow> Some (s'', acts @ acts')))"

text \<open>
  The client from its start: \<open>backoff_time = 1\<close>, about to connect. The symbol and the
  stream name only make up the address and play no part in the control flow.
\<close>

definition client_start :: client where
  "client_start = \<lparr>conn = Connecting, backoff_time = 1, clock_reads = 0\<rparr>"

definition binance_websocket_client ::
  "(nat \<Rightarrow> int) \<Rightarrow> event list \<Rightarrow> (client \<times> action list) option" where
  "binance_websocket_client clk evs = client_run clk client_start evs"

text \<open>
  The reading of an integer entry in an arithmetic expression: a missing key raises
  \<open>KeyError\<close>, and a string in place of the integer makes the subtraction raise
  \<open>TypeError\<close>.
\<close>

definition int_item :: "msg \<Rightarrow> string \<Rightarrow> exn + int" where
  "int_item m k =
     (case m k of
        None \<Rightarrow> Inl KeyError
      | Some (JInt i) \<Rightarrow> Inr i
      | Some _ \<Rightarrow> Inl TypeError)"

text \<open>The two latencies that \<open>main_trades\<close> derives from a yielded trade event.\<close>

definition latency_ns :: "msg \<Rightarrow> exn + int" where
  "latency_ns trade_data =
     (case int_item trade_data ''_ts_received_ws'' of
        Inl e \<Rightarrow> Inl e
      | Inr received \<Rightarrow>
          (case int_item trade_data ''T'' of
             Inl e \<Rightarrow> Inl e
           | Inr t \<Rightarrow> Inr (received - t * 1000000)))"

definition parse_latency_ns :: "msg \<Rightarrow> exn + int" where
  "parse_latency_ns trade_data =
     (case int_item trade_data ''_ts_after_parse'' of
        Inl e \<Rightarrow> Inl e
      | Inr after \<Rightarrow>
          (case int_item trade_data ''_ts_before_parse'' of
             Inl e \<Rightarrow> Inl e
           | Inr before \<Rightarrow> Inr (after - before)))"

text \<open>
  The message yielded for a decoded dictionary \<open>d\<close> when the first of the three clock
  readings is the \<open>n\<close>-th one: the three assignments of \<open>on_message\<close>, in their order.
\<close>

definition stamped :: "(nat \<Rightarrow> int) \<Rightarrow> nat \<Rightarrow> msg \<Rightarrow> msg" where
  "stamped clk n d =
     d(''_ts_before_parse'' \<mapsto> JInt (clk n),
       ''_ts_after_parse'' \<mapsto> JInt (clk (n + 1)),
       ''_ts_received_ws'' \<mapsto> JInt (clk (n + 2)))"

text \<open>
  A session is fresh when its backoff time is the one set on connecting.
\<close>

definition fresh_session :: "client \<Rightarrow> bool" where
  "fresh_session s = (conn s = Connected \<longrightarrow> backoff_time s = 1)"

section \<open>The top-of-book collector (plot\_live.py)\<close>

text \<open>
  The rolling buffers that \<open>data_collector_book_ticker\<close> appends to. They are deques of
  floats in which \<open>np.nan\<close> stands for a missing value: \<open>None\<close> here.
\<close>

record dashboard =
  timestamps :: "real list"
  mid_prices :: "real option list"
  spreads :: "real option list"
  imbalances :: "real option list"
  vwaps :: "real option list"
  trade_volumes_per_sec :: "real option list"
  last_trade_prices :: "real option list"

definition MAX_DATAPOINTS :: nat where
  "MAX_DATAPOINTS = 200"

text \<open>\<open>append\<close> on a \<open>deque\<close> with a \<open>maxlen\<close>: a full deque drops its oldest item.\<close>

definition deque_append :: "nat \<Rightarrow> 'a list \<Rightarrow> 'a \<Rightarrow> 'a list" where
  "deque_append maxlen dq x =
     (if maxlen = 0 then dq
      else let ys = dq @ [x] in if length ys > maxlen then tl ys else ys)"

text \<open>\<open>dq[-1] if dq else np.nan\<close>\<close>

definition last_or_nan :: "real option list \<Rightarrow> real option" where
  "last_or_nan dq = (if dq = [] then None else last dq)"

text \<open>\<open>float(msg[k])\<close>: \<open>KeyError\<close> for a missing key, \<open>ValueError\<close> for a string that is no number.\<close>

definition float_item :: "msg \<Rightarrow> string \<Rightarrow> exn + real" where
  "float_item m k =
     (case m k of
        None \<Rightarrow> Inl KeyError
      | Some (JInt i) \<Rightarrow> Inr (real_of_int i)
      | Some (JDec r) \<Rightarrow> Inr r
      | Some (JStr s) \<Rightarrow> Inl ValueError)"

text \<open>
  The body of the loop of \<open>data_collector_book_ticker\<close>, for one message: the buffers
  after it, and the exception it raised, if any. The statements are in the order of the
  source, and each exception leaves with the buffers as they are at that point.
\<close>

definition data_collector_book_ticker :: "dashboard \<Rightarrow> msg \<Rightarrow> dashboard \<times> exn option" where
  "data_collector_book_ticker st m =
     (case int_item m ''_ts_received_ws'' of
        Inl e \<Rightarrow> (st, Some e)
      | Inr received \<Rightarrow>
     (let current_time_sec = real_of_int received / 1000000000 in
      case float_item m ''b'' of
        Inl e \<Rightarrow> (st, Some e)
      | Inr best_bid \<Rightarrow>
     (case float_item m ''B'' of
        Inl e \<Rightarrow> (st, Some e)
      | Inr best_bid_qty \<Rightarrow>
     (case float_item m ''a'' of
        Inl e \<Rightarrow> (st, Some e)
      | Inr best_ask \<Rightarrow>
     (case float_item m ''A'' of
        Inl e \<Rightarrow> (st, Some e)
      | Inr best_ask_qty \<Rightarrow>
     (let mid = calculate_mid_price best_bid best_ask;
          spread = calculate_spread best_bid best_ask;
          imbalance = calculate_order_book_imbalance best_bid_qty best_ask_qty
      in (st\<lparr>timestamps := deque_append MAX_DATAPOINTS (timestamps st) current_time_sec,
              mid_prices := deque_append MAX_DATAPOINTS (mid_prices st) mid,
              spreads := deque_append MAX_DATAPOINTS (spreads st) spread,
              imbalances := deque_append MAX_DATAPOINTS (imbalances st) imbalance,
              vwaps := deque_append MAX_DATAPOINTS (vwaps st) (last_or_nan (vwaps st)),
              trade_volumes_per_sec :=
                deque_append MAX_DATAPOINTS (trade_volumes_per_sec st)
                  (last_or_nan (trade_volumes_per_sec st)),
              last_trade_prices := deque_append MAX_DATAPOINTS (last_trade_prices st) None\<rparr>,
          None)))))))"

section \<open>The order book store\<close>

text \<open>
  The tests import \<open>OrderBook\<close> from a module \<open>orderbook\<close> whose source is not part of
  the sources at hand. The store is therefore modelled from the specification (section
  4.2 and section 7); prices and quantities are reals.
\<close>

datatype side = Bid | Ask

text \<open>
  Modelled from the spec: the order book store (the \<open>orderbook\<close> module is missing). Each
  side maps a price to a quantity with unique keys: an association list.
\<close>

record order_book =
  bids :: "(real \<times> real) list"
  asks :: "(real \<times> real) list"

text \<open>Modelled from the spec: the store of a new \<open>OrderBook\<close> (module missing), with no level.\<close>

definition empty_book :: order_book where
  "empty_book = \<lparr>bids = [], asks = []\<rparr>"

text \<open>
  Modelled from the spec: \<open>upsert\<close> on one side (module \<open>orderbook\<close> missing): "if
  quantity \<open>\<le>\<close> 0, remove price from side if present (no-op, not an error, if absent);
  else insert/overwrite".
\<close>

definition upsert_level :: "real \<Rightarrow> real \<Rightarrow> (real \<times> real) list \<Rightarrow> (real \<times> real) list" where
  "upsert_level price quantity levels =
     (if quantity \<le> 0 then AList.delete price levels
      else AList.update price quantity levels)"

text \<open>Modelled from the spec: \<open>upsert(side, price, quantity)\<close> (module \<open>orderbook\<close> missing).\<close>

definition upsert :: "order_book \<Rightarrow> side \<Rightarrow> real \<Rightarrow> real \<Rightarrow> order_book" where
  "upsert book sd price quantity =
     (case sd of
        Bid \<Rightarrow> book\<lparr>bids := upsert_level price quantity (bids book)\<rparr>
      | Ask \<Rightarrow> book\<lparr>asks := upsert_level price quantity (asks book)\<rparr>)"

text \<open>
  Modelled from the spec: a finite sequence of \<open>upsert\<close> calls, applied in order (module
  \<open>orderbook\<close> missing).
\<close>

fun upserts :: "order_book \<Rightarrow> (side \<times> real \<times> real) list \<Rightarrow> order_book" where
  "upserts book [] = book"
| "upserts book ((sd, price, quantity) # calls) = upserts (upsert book sd price quantity) calls"

text \<open>
  Modelled from the spec: \<open>best_bid()\<close>, which the tests call \<open>get_best_bid\<close> (module
  \<open>orderbook\<close> missing): "the maximum price key present, or a sentinel 0 if the side is
  empty".
\<close>

definition get_best_bid :: "order_book \<Rightarrow> real" where
  "get_best_bid book = (case map fst (bids book) of [] \<Rightarrow> 0 | p # ps \<Rightarrow> fold max ps p)"

text \<open>
  Modelled from the spec: \<open>best_ask()\<close>, which the tests call \<open>get_best_ask\<close> (module
  \<open>orderbook\<close> missing): "the minimum price key present, or a sentinel 0 if the side is
  empty".
\<close>

definition get_best_ask :: "order_book \<Rightarrow> real" where
  "get_best_ask book = (case map fst (asks book) of [] \<Rightarrow> 0 | p # ps \<Rightarrow> fold min ps p)"

text \<open>
  Modelled from the spec: \<open>quantity_at(side, price)\<close> (module \<open>orderbook\<close> missing):
  "returns stored quantity or 0 if absent".
\<close>

definition quantity_at :: "order_book \<Rightarrow> side \<Rightarrow> real \<Rightarrow> real" where
  "quantity_at book sd price =
     (case map_of (case sd of Bid \<Rightarrow> bids book | Ask \<Rightarrow> asks book) price of
        None \<Rightarrow> 0
      | Some quantity \<Rightarrow> quantity)"

text \<open>
  Modelled from the spec: a required field of a top-of-book update (module \<open>orderbook\<close>
  missing), a decimal under one of the keys \<open>b\<close>, \<open>B\<close>, \<open>a\<close>, \<open>A\<close>; no value when the
  field is missing or is not a number.
\<close>

definition decimal_field :: "msg \<Rightarrow> string \<Rightarrow> real option" where
  "decimal_field u k =
     (case u k of
        Some (JDec r) \<Rightarrow> Some r
      | Some (JInt i) \<Rightarrow> Some (real_of_int i)
      | _ \<Rightarrow> None)"

datatype outcome = Applied | Rejected

text \<open>
  Modelled from the spec: \<open>apply_top_of_book(update)\<close> (module \<open>orderbook\<close> missing):
  "atomically discards all existing levels on both sides and installs exactly the one bid
  level and one ask level from update (if a side's incoming quantity is \<open>\<le>\<close> 0, that side
  becomes empty)", and for an update with a missing required field "the update is rejected
  and the prior state is retained unchanged".
\<close>

definition apply_top_of_book :: "order_book \<Rightarrow> msg \<Rightarrow> order_book \<times> outcome" where
  "apply_top_of_book book u =
     (case (decimal_field u ''b'', decimal_field u ''B'',
            decimal_field u ''a'', decimal_field u ''A'') of
        (Some bid_price, Some bid_qty, Some ask_price, Some ask_qty) \<Rightarrow>
          (upsert (upsert empty_book Bid bid_price bid_qty) Ask ask_price ask_qty, Applied)
      | _ \<Rightarrow> (book, Rejected))"

section \<open>Properties of the metrics\<close>

lemma volume_loop_descending:
  "sorted (rev (map trade_T ts)) \<Longrightarrow>
   volume_loop ts c v = v + sum_list (map trade_q (filter (\<lambda>t. trade_T t * 1000000 \<ge> c) ts))"
proof (induction ts arbitrary: v)
  case Nil
  show ?case by simp
next
  case (Cons t ts)
  from Cons.prems have later: "\<forall>u \<in> set ts. trade_T u \<le> trade_T t"
    by (auto simp: sorted_append)
  from Cons.prems have rest: "sorted (rev (map trade_T ts))"
    by (simp add: sorted_append)
  show ?case
  proof (cases "trade_T t * 1000000 \<ge> c")
    case True
    with Cons.IH [OF rest] show ?thesis by simp
  next
    case False
    with later have "\<forall>u \<in> set ts. \<not> trade_T u * 1000000 \<ge> c"
      by fastforce
    then have "filter (\<lambda>t. trade_T t * 1000000 \<ge> c) ts = []"
      by (simp add: filter_empty_conv)
    with False show ?thesis by simp
  qed
qed

lemma sum_list_filter_rev:
  "sum_list (map f (filter P (rev xs))) = (sum_list (map f (filter P xs)) :: real)"
  by (induction xs) simp_all

text \<open>
  C5. For every list of trades whose times \<open>T\<close> are non-decreasing in list order, every
  current time and every positive window, the backward scan with early exit returns
  exactly the sum of the quantities of all trades of the list with
  \<open>T * 1000000 \<ge> now - window\<close>, that is the full filter-and-sum of the specification.
\<close>

theorem trailing_volume_early_exit_exact:
  assumes "sorted (map trade_T trades)" and "0 < window_seconds"
  shows "calculate_trade_volume_per_second trades current_time_ns window_seconds =
         trailing_volume_spec trades current_time_ns (window_seconds * 1000000000)"
proof (cases "trades = []")
  case True
  then show ?thesis
    by (simp add: calculate_trade_volume_per_second_def trailing_volume_spec_def)
next
  case False
  from assms(1) have "sorted (rev (map trade_T (rev trades)))"
    by (simp add: rev_map)
  then have "volume_loop (rev trades) (current_time_ns - window_seconds * 1000000000) 0 =
        sum_list (map trade_q (filter
          (\<lambda>t. trade_T t * 1000000 \<ge> current_time_ns - window_seconds * 1000000000) (rev trades)))"
    by (simp add: volume_loop_descending)
  with False assms(2) show ?thesis
    by (simp add: calculate_trade_volume_per_second_def trailing_volume_spec_def
        sum_list_filter_rev)
qed

theorem trailing_volume_early_exit_exact_witness:
  "sorted (map trade_T
     [\<lparr>trade_p = 99.90, trade_q = 1.0, trade_T = 7500\<rparr>,
      \<lparr>trade_p = 99.95, trade_q = 0.5, trade_T = 8200\<rparr>,
      \<lparr>trade_p = 100.00, trade_q = 2.0, trade_T = 9100\<rparr>,
      \<lparr>trade_p = 100.05, trade_q = 1.5, trade_T = 9700\<rparr>]) \<and>
   (0::int) < 1 \<and>
   calculate_trade_volume_per_second
     [\<lparr>trade_p = 99.90, trade_q = 1.0, trade_T = 7500\<rparr>,
      \<lparr>trade_p = 99.95, trade_q = 0.5, trade_T = 8200\<rparr>,
      \<lparr>trade_p = 100.00, trade_q = 2.0, trade_T = 9100\<rparr>,
      \<lparr>trade_p = 100.05, trade_q = 1.5, trade_T = 9700\<rparr>] 10000000000 1 = 3.5"
  using trailing_volume_early_exit_exact [of
     "[\<lparr>trade_p = 99.90, trade_q = 1.0, trade_T = 7500\<rparr>,
      \<lparr>trade_p = 99.95, trade_q = 0.5, trade_T = 8200\<rparr>,
      \<lparr>trade_p = 100.00, trade_q = 2.0, trade_T = 9100\<rparr>,
      \<lparr>trade_p = 100.05, trade_q = 1.5, trade_T = 9700\<rparr>]" 1 10000000000]
  by (simp add: trailing_volume_spec_def)

text \<open>
  C7. The spread is \<open>best_ask - best_bid\<close> when both prices are positive and the ask
  is above the bid, and no value otherwise; the mid-price is \<open>(best_ask + best_bid) / 2\<close>
  under the same condition and no value otherwise; so one is defined exactly when the
  other is.
\<close>

theorem spread_and_mid_price_defined_together:
  "calculate_spread best_bid best_ask =
     (if best_bid > 0 \<and> best_ask > 0 \<and> best_ask > best_bid
      then Some (best_ask - best_bid) else None) \<and>
   calculate_mid_price best_bid best_ask =
     (if best_bid > 0 \<and> best_ask > 0 \<and> best_ask > best_bid
      then Some ((best_ask + best_bid) / 2) else None) \<and>
   (calculate_spread best_bid best_ask = None) =
     (calculate_mid_price best_bid best_ask = None)"
  by (simp add: calculate_spread_def calculate_mid_price_def)

theorem spread_and_mid_price_defined_together_witness:
  "calculate_spread 100 101 = Some 1 \<and> calculate_mid_price 100 101 = Some (201 / 2) \<and>
   calculate_spread 101 100 = None \<and> calculate_mid_price 101 100 = None \<and>
   calculate_spread 0 100 = None \<and> calculate_mid_price 0 100 = None"
  using spread_and_mid_price_defined_together [of 100 101]
    spread_and_mid_price_defined_together [of 101 100]
    spread_and_mid_price_defined_together [of 0 100]
  by simp

text \<open>
  C8. For non-negative bid and ask quantities the imbalance is
  \<open>(bid - ask) / (bid + ask)\<close> when the total is positive and no value when the total
  is 0, and every value it returns lies between -1 and 1.
\<close>

theorem imbalance_value_and_range:
  assumes "0 \<le> bid_volume" and "0 \<le> ask_volume"
  shows "(0 < bid_volume + ask_volume \<longrightarrow>
            calculate_order_book_imbalance bid_volume ask_volume =
              Some ((bid_volume - ask_volume) / (bid_volume + ask_volume))) \<and>
         (bid_volume + ask_volume = 0 \<longrightarrow>
            calculate_order_book_imbalance bid_volume ask_volume = None) \<and>
         (\<forall>r. calculate_order_book_imbalance bid_volume ask_volume = Some r \<longrightarrow>
            - 1 \<le> r \<and> r \<le> 1)"
proof -
  have "- 1 \<le> (bid_volume - ask_volume) / (bid_volume + ask_volume) \<and>
        (bid_volume - ask_volume) / (bid_volume + ask_volume) \<le> 1"
    if "0 < bid_volume + ask_volume"
    using that assms by (simp add: pos_le_divide_eq pos_divide_le_eq)
  then show ?thesis
    by (auto simp: calculate_order_book_imbalance_def Let_def)
qed

theorem imbalance_value_and_range_witness:
  "(0::real) \<le> 10 \<and> (0::real) \<le> 5 \<and>
   calculate_order_book_imbalance 10 5 = Some (1 / 3) \<and>
   calculate_order_book_imbalance 0 0 = None \<and>
   calculate_order_book_imbalance 0 5 = Some (- 1)"
  using imbalance_value_and_range [of 10 5] imbalance_value_and_range [of 0 0]
    imbalance_value_and_range [of 0 5]
  by simp

text \<open>
  C9. For every trade list, also a non-empty one with positive total volume, the VWAP
  for a window size of zero or below is no value.
\<close>

theorem vwap_nonpositive_window:
  "window_size_trades \<le> 0 \<Longrightarrow> calculate_vwap trades window_size_trades = None"
  by (simp add: calculate_vwap_def)

theorem vwap_nonpositive_window_witness:
  "(0::int) \<le> 0 \<and> (- 3::int) \<le> 0 \<and>
   calculate_vwap [\<lparr>trade_p = 100, trade_q = 2, trade_T = 9100\<rparr>,
                   \<lparr>trade_p = 101, trade_q = 1, trade_T = 9700\<rparr>] 0 = None \<and>
   calculate_vwap [\<lparr>trade_p = 100, trade_q = 2, trade_T = 9100\<rparr>,
                   \<lparr>trade_p = 101, trade_q = 1, trade_T = 9700\<rparr>] (- 3) = None \<and>
   calculate_vwap [\<lparr>trade_p = 100, trade_q = 2, trade_T = 9100\<rparr>,
                   \<lparr>trade_p = 101, trade_q = 1, trade_T = 9700\<rparr>] 1 = Some 101"
  using vwap_nonpositive_window [of 0 "[\<lparr>trade_p = 100, trade_q = 2, trade_T = 9100\<rparr>,
                   \<lparr>trade_p = 101, trade_q = 1, trade_T = 9700\<rparr>]"]
    vwap_nonpositive_window [of "- 3" "[\<lparr>trade_p = 100, trade_q = 2, trade_T = 9100\<rparr>,
                   \<lparr>trade_p = 101, trade_q = 1, trade_T = 9700\<rparr>]"]
  by (simp add: calculate_vwap_def slice_from_def)

section \<open>Properties of the stream client\<close>

lemma client_run_append:
  "client_run clk s (xs @ ys) =
     (case client_run clk s xs of
        None \<Rightarrow> None
      | Some (s', a) \<Rightarrow>
          (case client_run clk s' ys of
             None \<Rightarrow> None
           | Some (s'', b) \<Rightarrow> Some (s'', a @ b)))"
  by (induction xs arbitrary: s) (auto split: option.splits)

lemma except_clauses_eq:
  "except_clauses e s =
     (s\<lparr>conn := Connecting, backoff_time := min (backoff_time s * 2) 60\<rparr>,
      [Slept (backoff_time s)])"
  by (simp add: except_clauses_def)

lemma raise_in_session_eq:
  "raise_in_session e s =
     (s\<lparr>conn := Connecting, backoff_time := min (backoff_time s * 2) 60\<rparr>,
      [Closed, Slept (backoff_time s)])"
  by (simp add: raise_in_session_def except_clauses_eq)

lemma client_step_fresh:
  "client_step clk s ev = Some (s', acts) \<Longrightarrow> fresh_session s \<Longrightarrow> fresh_session s'"
  by (auto simp: client_step_def fresh_session_def on_message_def raise_in_session_eq
      except_clauses_eq Let_def split: connection_state.splits event.splits frame.splits)

lemma client_run_fresh:
  "client_run clk s evs = Some (s', acts) \<Longrightarrow> fresh_session s \<Longrightarrow> fresh_session s'"
proof (induction evs arbitrary: s acts)
  case Nil
  then show ?case by simp
next
  case (Cons ev evs)
  from Cons.prems(1) obtain s1 a1 a2 where
    step: "client_step clk s ev = Some (s1, a1)" and
    rest: "client_run clk s1 evs = Some (s', a2)"
    by (auto split: option.splits)
  from step Cons.prems(2) have "fresh_session s1"
    by (rule client_step_fresh)
  with rest show ?case
    by (rule Cons.IH)
qed

lemma doubling_capped: "min (min x 60 * 2) 60 = min (x * 2) (60::int)"
  by simp

lemma failures_run:
  assumes "conn s = Connecting" and "backoff_time s = 1"
  shows "client_run clk s (map ConnectFailed es) =
     Some (s\<lparr>backoff_time := min (2 ^ length es) 60\<rparr>,
           map (\<lambda>k. Slept (min (2 ^ k) 60)) [0..<length es])"
proof (induction es rule: rev_induct)
  case Nil
  from assms(2) show ?case by (cases s) simp
next
  case (snoc e es)
  have "client_step clk (s\<lparr>backoff_time := min (2 ^ length es) 60\<rparr>) (ConnectFailed e) =
        Some (s\<lparr>backoff_time := min (2 ^ Suc (length es)) 60\<rparr>,
              [Slept (min (2 ^ length es) 60)])"
    using assms(1) by (simp add: client_step_def except_clauses_eq doubling_capped mult.commute)
  with snoc.IH show ?case
    by (simp add: client_run_append)
qed

lemma on_message_Object:
  "on_message clk s (Object d) =
     (s\<lparr>clock_reads := clock_reads s + 3\<rparr>, [Yielded (stamped clk (clock_reads s) d)])"
  by (simp add: on_message_def stamped_def Let_def)

lemma on_message_Undecodable:
  "on_message clk s Undecodable =
     (s\<lparr>conn := Connecting, backoff_time := min (backoff_time s * 2) 60,
         clock_reads := clock_reads s + 1\<rparr>,
      [Closed, Slept (backoff_time s)])"
  by (simp add: on_message_def raise_in_session_eq Let_def)

lemma on_message_NonObject:
  "on_message clk s NonObject =
     (s\<lparr>conn := Connecting, backoff_time := min (backoff_time s * 2) 60,
         clock_reads := clock_reads s + 2\<rparr>,
      [Closed, Slept (backoff_time s)])"
  by (simp add: on_message_def raise_in_session_eq Let_def)

lemma on_message_yields:
  "on_message clk s f = (s', acts) \<Longrightarrow> Yielded m \<in> set acts \<Longrightarrow>
   \<exists>d. m = stamped clk (clock_reads s) d"
  by (cases f) (auto simp: on_message_Object on_message_Undecodable on_message_NonObject)

lemma yields_of_step:
  assumes "client_step clk s ev = Some (s', acts)" and "Yielded m \<in> set acts"
  shows "\<exists>n d. m = stamped clk n d"
proof -
  from assms obtain f where "on_message clk s f = (s', acts)"
    by (auto simp: client_step_def raise_in_session_eq except_clauses_eq
        split: connection_state.splits event.splits)
  from on_message_yields [OF this assms(2)] show ?thesis by blast
qed

lemma yields_of_run:
  assumes "client_run clk s evs = Some (s', acts)" and "Yielded m \<in> set acts"
  shows "\<exists>n d. m = stamped clk n d"
  using assms
proof (induction evs arbitrary: s acts)
  case Nil
  then show ?case by simp
next
  case (Cons ev evs)
  from Cons.prems(1) obtain s1 a1 a2 where
    step: "client_step clk s ev = Some (s1, a1)" and
    rest: "client_run clk s1 evs = Some (s', a2)" and
    acts: "acts = a1 @ a2"
    by (auto split: option.splits)
  from Cons.prems(2) acts consider "Yielded m \<in> set a1" | "Yielded m \<in> set a2"
    by auto
  then show ?case
  proof cases
    case 1
    with step yields_of_step show ?thesis by blast
  next
    case 2
    with rest show ?thesis by (rule Cons.IH)
  qed
qed

text \<open>
  C1 (amended). A decode failure on a frame does not terminate the stream, but it ends the
  connected session: nothing is yielded for the frame, the connection is closed, the
  backoff delay of 1 (the delay was reset when the connection was made) is slept and the
  delay is doubled to 2. The client then connects again, and iteration continues with the
  frames of the new connection.
\<close>

theorem decode_failure_reconnects:
  assumes "binance_websocket_client clk evs = Some (s, acts)" and "conn s = Connected"
  shows "binance_websocket_client clk (evs @ [Frame Undecodable]) =
           Some (s\<lparr>conn := Connecting, backoff_time := 2, clock_reads := clock_reads s + 1\<rparr>,
                 acts @ [Closed, Slept 1]) \<and>
         binance_websocket_client clk (evs @ [Frame Undecodable, ConnectOk, Frame (Object d)]) =
           Some (s\<lparr>clock_reads := clock_reads s + 4\<rparr>,
                 acts @ [Closed, Slept 1, Yielded (stamped clk (clock_reads s + 1) d)])"
proof -
  have "fresh_session client_start"
    by (simp add: fresh_session_def client_start_def)
  with assms(1) have "fresh_session s"
    by (auto simp: binance_websocket_client_def dest: client_run_fresh)
  with assms(2) have b: "backoff_time s = 1"
    by (simp add: fresh_session_def)
  have same: "s\<lparr>conn := Connected, backoff_time := 1, clock_reads := k\<rparr> = s\<lparr>clock_reads := k\<rparr>" for k
    using assms(2) b by (cases s) simp
  from assms b show ?thesis
    by (simp add: binance_websocket_client_def client_run_append client_step_def
        on_message_Undecodable on_message_Object same)
qed

theorem decode_failure_reconnects_witness:
  "binance_websocket_client int [ConnectOk] =
     Some (\<lparr>conn = Connected, backoff_time = 1, clock_reads = 0\<rparr>, []) \<and>
   conn \<lparr>conn = Connected, backoff_time = 1, clock_reads = 0\<rparr> = Connected \<and>
   binance_websocket_client int [ConnectOk, Frame Undecodable, ConnectOk, Frame (Object Map.empty)] =
     Some (\<lparr>conn = Connected, backoff_time = 1, clock_reads = 4\<rparr>,
           [Closed, Slept 1, Yielded (stamped int 1 Map.empty)])"
proof -
  have h1: "binance_websocket_client int [ConnectOk] =
     Some (\<lparr>conn = Connected, backoff_time = 1, clock_reads = 0\<rparr>, [])"
    by (simp add: binance_websocket_client_def client_start_def client_step_def)
  have h2: "conn \<lparr>conn = Connected, backoff_time = 1, clock_reads = 0\<rparr> = Connected"
    by simp
  from decode_failure_reconnects [OF h1 h2, of Map.empty] h1 h2 show ?thesis
    by simp
qed

text \<open>
  C1, as it is stated, fails: after a successful connection an undecodable frame leaves
  the client disconnected, with the connection closed, one second slept and the backoff
  time doubled.
\<close>

theorem decode_failure_keeps_connection_counterexample:
  "binance_websocket_client int [ConnectOk] =
     Some (\<lparr>conn = Connected, backoff_time = 1, clock_reads = 0\<rparr>, []) \<and>
   binance_websocket_client int [ConnectOk, Frame Undecodable] =
     Some (\<lparr>conn = Connecting, backoff_time = 2, clock_reads = 1\<rparr>, [Closed, Slept 1])"
  by (simp add: binance_websocket_client_def client_start_def client_step_def
      on_message_Undecodable)

text \<open>
  C3. The delays slept on consecutive connection failures, starting from a backoff time
  of 1, are \<open>min (2 ^ k) 60\<close> for \<open>k = 0, 1, 2, ...\<close>, that is 1, 2, 4, 8, 16, 32, 60,
  60, ...; a successful connection sets the backoff time to 1 at once, whatever it was;
  and the failures that follow a session count again from 1.
\<close>

theorem backoff_sequence_and_reset:
  "(conn s = Connecting \<and> backoff_time s = 1 \<longrightarrow>
      client_run clk s (map ConnectFailed es) =
        Some (s\<lparr>backoff_time := min (2 ^ length es) 60\<rparr>,
              map (\<lambda>k. Slept (min (2 ^ k) 60)) [0..<length es])) \<and>
   (conn s = Connecting \<longrightarrow>
      client_step clk s ConnectOk = Some (s\<lparr>conn := Connected, backoff_time := 1\<rparr>, [])) \<and>
   (conn s = Connected \<and> backoff_time s = 1 \<longrightarrow>
      client_run clk s (RecvFailed e # map ConnectFailed es) =
        Some (s\<lparr>conn := Connecting, backoff_time := min (2 ^ Suc (length es)) 60\<rparr>,
              Closed # map (\<lambda>k. Slept (min (2 ^ k) 60)) [0..<Suc (length es)]))"
proof (intro conjI impI)
  assume "conn s = Connecting \<and> backoff_time s = 1"
  then show "client_run clk s (map ConnectFailed es) =
        Some (s\<lparr>backoff_time := min (2 ^ length es) 60\<rparr>,
              map (\<lambda>k. Slept (min (2 ^ k) 60)) [0..<length es])"
    by (simp add: failures_run)
next
  assume "conn s = Connecting"
  then show "client_step clk s ConnectOk = Some (s\<lparr>conn := Connected, backoff_time := 1\<rparr>, [])"
    by (simp add: client_step_def)
next
  assume a: "conn s = Connected \<and> backoff_time s = 1"
  define s1 where "s1 = s\<lparr>conn := Connecting, backoff_time := 2\<rparr>"
  have "client_run clk (s\<lparr>conn := Connecting\<rparr>) (map ConnectFailed (e # es)) =
        Some (s\<lparr>conn := Connecting, backoff_time := min (2 ^ Suc (length es)) 60\<rparr>,
              map (\<lambda>k. Slept (min (2 ^ k) 60)) [0..<Suc (length es)])"
    using a failures_run [of "s\<lparr>conn := Connecting\<rparr>" clk "e # es"] by simp
  moreover have "client_step clk (s\<lparr>conn := Connecting\<rparr>) (ConnectFailed e) =
        Some (s1, [Slept 1])"
    using a by (simp add: client_step_def except_clauses_eq s1_def)
  moreover have "client_step clk s (RecvFailed e) = Some (s1, [Closed, Slept 1])"
    using a by (simp add: client_step_def raise_in_session_eq s1_def)
  ultimately show "client_run clk s (RecvFailed e # map ConnectFailed es) =
        Some (s\<lparr>conn := Connecting, backoff_time := min (2 ^ Suc (length es)) 60\<rparr>,
              Closed # map (\<lambda>k. Slept (min (2 ^ k) 60)) [0..<Suc (length es)])"
    by (auto split: option.splits)
qed

theorem backoff_sequence_and_reset_witness:
  "conn client_start = Connecting \<and> backoff_time client_start = 1 \<and>
   binance_websocket_client int (map ConnectFailed
       [InvalidStatusCode, OSError, OSError, ConnectionClosedError, OSError, OSError,
        InvalidStatusCode, OSError]) =
     Some (\<lparr>conn = Connecting, backoff_time = 60, clock_reads = 0\<rparr>,
           [Slept 1, Slept 2, Slept 4, Slept 8, Slept 16, Slept 32, Slept 60, Slept 60]) \<and>
   client_step int \<lparr>conn = Connecting, backoff_time = 60, clock_reads = 0\<rparr> ConnectOk =
     Some (\<lparr>conn = Connected, backoff_time = 1, clock_reads = 0\<rparr>, [])"
  using backoff_sequence_and_reset [of client_start int
       "[InvalidStatusCode, OSError, OSError, ConnectionClosedError, OSError, OSError,
        InvalidStatusCode, OSError]"]
    backoff_sequence_and_reset [of "\<lparr>conn = Connecting, backoff_time = 60, clock_reads = 0\<rparr>" int]
  by (simp add: binance_websocket_client_def client_start_def upt_rec)

text \<open>
  C10. With a monotonic clock, every message the client yields carries three consecutive
  clock readings, taken in the order pre-decode, post-decode, arrival, so
  \<open>_ts_before_parse \<le> _ts_after_parse \<le> _ts_received_ws\<close>. The arrival stamp is read
  after decoding, so the transport latency computed from it contains the parse latency.
\<close>

theorem stamps_in_clock_order:
  assumes "mono clk" and "binance_websocket_client clk evs = Some (s, acts)"
    and "Yielded m \<in> set acts"
  shows "\<exists>n. m ''_ts_before_parse'' = Some (JInt (clk n)) \<and>
             m ''_ts_after_parse'' = Some (JInt (clk (n + 1))) \<and>
             m ''_ts_received_ws'' = Some (JInt (clk (n + 2))) \<and>
             clk n \<le> clk (n + 1) \<and> clk (n + 1) \<le> clk (n + 2) \<and>
             parse_latency_ns m = Inr (clk (n + 1) - clk n) \<and>
             (\<forall>t. m ''T'' = Some (JInt t) \<longrightarrow>
                  latency_ns m = Inr (clk (n + 2) - t * 1000000) \<and>
                  (clk n - t * 1000000) + (clk (n + 1) - clk n) \<le> clk (n + 2) - t * 1000000)"
proof -
  from assms(2,3) obtain n d where m: "m = stamped clk n d"
    unfolding binance_websocket_client_def by (blast dest: yields_of_run)
  from assms(1) have "clk n \<le> clk (n + 1)" and "clk (n + 1) \<le> clk (n + 2)"
    by (simp_all add: monoD)
  with m have "m ''_ts_before_parse'' = Some (JInt (clk n)) \<and>
             m ''_ts_after_parse'' = Some (JInt (clk (n + 1))) \<and>
             m ''_ts_received_ws'' = Some (JInt (clk (n + 2))) \<and>
             clk n \<le> clk (n + 1) \<and> clk (n + 1) \<le> clk (n + 2) \<and>
             parse_latency_ns m = Inr (clk (n + 1) - clk n) \<and>
             (\<forall>t. m ''T'' = Some (JInt t) \<longrightarrow>
                  latency_ns m = Inr (clk (n + 2) - t * 1000000) \<and>
                  (clk n - t * 1000000) + (clk (n + 1) - clk n) \<le> clk (n + 2) - t * 1000000)"
    by (simp add: stamped_def parse_latency_ns_def latency_ns_def int_item_def)
  then show ?thesis ..
qed

theorem stamps_in_clock_order_witness:
  "mono (\<lambda>n. 1000 + 7 * int n) \<and>
   binance_websocket_client (\<lambda>n. 1000 + 7 * int n)
       [ConnectOk, Frame (Object [''T'' \<mapsto> JInt 0])] =
     Some (\<lparr>conn = Connected, backoff_time = 1, clock_reads = 3\<rparr>,
           [Yielded [''T'' \<mapsto> JInt 0, ''_ts_before_parse'' \<mapsto> JInt 1000,
                     ''_ts_after_parse'' \<mapsto> JInt 1007, ''_ts_received_ws'' \<mapsto> JInt 1014]]) \<and>
   parse_latency_ns [''T'' \<mapsto> JInt 0, ''_ts_before_parse'' \<mapsto> JInt 1000,
                     ''_ts_after_parse'' \<mapsto> JInt 1007, ''_ts_received_ws'' \<mapsto> JInt 1014] = Inr 7 \<and>
   latency_ns [''T'' \<mapsto> JInt 0, ''_ts_before_parse'' \<mapsto> JInt 1000,
                     ''_ts_after_parse'' \<mapsto> JInt 1007, ''_ts_received_ws'' \<mapsto> JInt 1014] = Inr 1014"
proof -
  let ?clk = "\<lambda>n. 1000 + 7 * int n"
  let ?m = "[''T'' \<mapsto> JInt 0, ''_ts_before_parse'' \<mapsto> JInt 1000,
             ''_ts_after_parse'' \<mapsto> JInt 1007, ''_ts_received_ws'' \<mapsto> JInt 1014]"
  have h1: "mono ?clk"
    by (simp add: mono_def)
  have h2: "binance_websocket_client ?clk [ConnectOk, Frame (Object [''T'' \<mapsto> JInt 0])] =
     Some (\<lparr>conn = Connected, backoff_time = 1, clock_reads = 3\<rparr>, [Yielded ?m])"
    by (simp add: binance_websocket_client_def client_start_def client_step_def
        on_message_def Let_def)
  have h3: "Yielded ?m \<in> set [Yielded ?m]"
    by simp
  from stamps_in_clock_order [OF h1 h2 h3] obtain n where
    b: "?m ''_ts_before_parse'' = Some (JInt (?clk n))" and
    p: "parse_latency_ns ?m = Inr (?clk (n + 1) - ?clk n)" and
    l: "\<forall>t. ?m ''T'' = Some (JInt t) \<longrightarrow> latency_ns ?m = Inr (?clk (n + 2) - t * 1000000)"
    by blast
  from b have "n = 0" by simp
  with p l h1 h2 show ?thesis by simp
qed

section \<open>Properties of the order book store and of the collector\<close>

lemma upsert_level_positive:
  assumes "\<forall>p q. map_of lv p = Some q \<longrightarrow> 0 < q"
  shows "\<forall>p q. map_of (upsert_level price quantity lv) p = Some q \<longrightarrow> 0 < q"
proof (cases "quantity \<le> 0")
  case True
  with assms show ?thesis
    by (simp add: upsert_level_def delete_conv')
next
  case False
  with assms show ?thesis
    by (simp add: upsert_level_def update_conv')
qed

lemma upserts_positive:
  assumes "\<forall>p q. map_of (bids book) p = Some q \<longrightarrow> 0 < q"
    and "\<forall>p q. map_of (asks book) p = Some q \<longrightarrow> 0 < q"
  shows "(\<forall>p q. map_of (bids (upserts book calls)) p = Some q \<longrightarrow> 0 < q) \<and>
         (\<forall>p q. map_of (asks (upserts book calls)) p = Some q \<longrightarrow> 0 < q)"
  using assms
proof (induction book calls rule: upserts.induct)
  case (1 book)
  then show ?case by simp
next
  case (2 book sd price quantity calls)
  have "(\<forall>p q. map_of (bids (upsert book sd price quantity)) p = Some q \<longrightarrow> 0 < q) \<and>
        (\<forall>p q. map_of (asks (upsert book sd price quantity)) p = Some q \<longrightarrow> 0 < q)"
    using "2.prems" upsert_level_positive [of "bids book" price quantity]
      upsert_level_positive [of "asks book" price quantity]
    by (cases sd) (simp_all add: upsert_def)
  then have "(\<forall>p q. map_of (bids (upserts (upsert book sd price quantity) calls)) p = Some q \<longrightarrow> 0 < q) \<and>
        (\<forall>p q. map_of (asks (upserts (upsert book sd price quantity) calls)) p = Some q \<longrightarrow> 0 < q)"
    by (intro "2.IH") blast+
  then show ?case
    by (simp only: upserts.simps)
qed

lemma positive_keys:
  assumes "\<forall>p q. map_of lv p = Some q \<longrightarrow> 0 < (q::real)"
  shows "{p. \<exists>q. map_of lv p = Some q \<and> 0 < q} = set (map fst lv)"
proof -
  have "{p. \<exists>q. map_of lv p = Some q \<and> 0 < q} = dom (map_of lv)"
    using assms by (auto simp: dom_def)
  then show ?thesis
    by (simp add: dom_map_of_conv_image_fst)
qed

lemma fold_max_Max: "fold max ps (p::real) = Max (set (p # ps))"
  by (rule Max.set_eq_fold [symmetric])

lemma fold_min_Min: "fold min ps (p::real) = Min (set (p # ps))"
  by (rule Min.set_eq_fold [symmetric])

text \<open>
  C4. After every finite sequence of \<open>upsert\<close> calls on an empty book, the best bid is
  the maximum price with a stored quantity above 0 on the bid side, and 0 if that side
  is empty; the best ask is the minimum such price on the ask side, and 0 if that side is
  empty.
\<close>

theorem best_prices_after_upserts:
  "get_best_bid (upserts empty_book calls) =
     (if bids (upserts empty_book calls) = [] then 0
      else Max {p. \<exists>q. map_of (bids (upserts empty_book calls)) p = Some q \<and> 0 < q}) \<and>
   get_best_ask (upserts empty_book calls) =
     (if asks (upserts empty_book calls) = [] then 0
      else Min {p. \<exists>q. map_of (asks (upserts empty_book calls)) p = Some q \<and> 0 < q})"
proof -
  let ?book = "upserts empty_book calls"
  have pos: "(\<forall>p q. map_of (bids ?book) p = Some q \<longrightarrow> 0 < q) \<and>
             (\<forall>p q. map_of (asks ?book) p = Some q \<longrightarrow> 0 < q)"
    by (rule upserts_positive) (simp_all add: empty_book_def)
  have b: "{p. \<exists>q. map_of (bids ?book) p = Some q \<and> 0 < q} = set (map fst (bids ?book))"
    using pos by (intro positive_keys) blast
  have a: "{p. \<exists>q. map_of (asks ?book) p = Some q \<and> 0 < q} = set (map fst (asks ?book))"
    using pos by (intro positive_keys) blast
  have "get_best_bid ?book = (if bids ?book = [] then 0 else Max (set (map fst (bids ?book))))"
    by (cases "bids ?book") (simp_all add: get_best_bid_def fold_max_Max del: set_simps list.set)
  moreover
  have "get_best_ask ?book = (if asks ?book = [] then 0 else Min (set (map fst (asks ?book))))"
    by (cases "asks ?book") (simp_all add: get_best_ask_def fold_min_Min del: set_simps list.set)
  ultimately show ?thesis
    by (simp only: a b)
qed

theorem best_prices_after_upserts_witness:
  "bids (upserts empty_book [(Bid, 10, 1), (Bid, 20, 2), (Ask, 30, 4), (Bid, 20, 0), (Ask, 25, 1)]) \<noteq> [] \<and>
   Max {p. \<exists>q. map_of (bids (upserts empty_book
          [(Bid, 10, 1), (Bid, 20, 2), (Ask, 30, 4), (Bid, 20, 0), (Ask, 25, 1)])) p = Some q \<and> 0 < q} = 10 \<and>
   Min {p. \<exists>q. map_of (asks (upserts empty_book
          [(Bid, 10, 1), (Bid, 20, 2), (Ask, 30, 4), (Bid, 20, 0), (Ask, 25, 1)])) p = Some q \<and> 0 < q} = 25 \<and>
   get_best_bid (upserts empty_book []) = 0 \<and> get_best_ask (upserts empty_book []) = 0"
proof -
  let ?calls = "[(Bid, 10, 1), (Bid, 20, 2), (Ask, 30, 4), (Bid, 20, 0), (Ask, 25, 1)]"
  have book: "upserts empty_book ?calls = \<lparr>bids = [(10, 1)], asks = [(30, 4), (25, 1)]\<rparr>"
    by (simp add: empty_book_def upsert_def upsert_level_def)
  have "get_best_bid (upserts empty_book ?calls) = 10"
    and "get_best_ask (upserts empty_book ?calls) = 25"
    unfolding book by (simp_all add: get_best_bid_def get_best_ask_def)
  moreover have "bids (upserts empty_book ?calls) \<noteq> []" and "asks (upserts empty_book ?calls) \<noteq> []"
    unfolding book by simp_all
  moreover have "bids (upserts empty_book []) = []" and "asks (upserts empty_book []) = []"
    by (simp_all add: empty_book_def)
  ultimately show ?thesis
    using best_prices_after_upserts [of ?calls] best_prices_after_upserts [of "[]"]
    by (simp only: if_False if_True simp_thms)
qed

text \<open>
  C2. For every book and every top-of-book update with the fields \<open>b\<close>, \<open>B\<close>, \<open>a\<close>,
  \<open>A\<close>, applying the update gives a store whose bid side is the single level \<open>(b, B)\<close>
  and whose ask side is the single level \<open>(a, A)\<close>, each present only if its quantity
  is above 0; every level present before is gone.
\<close>

theorem top_of_book_replaces_both_sides:
  assumes "decimal_field u ''b'' = Some b" and "decimal_field u ''B'' = Some bq"
    and "decimal_field u ''a'' = Some a" and "decimal_field u ''A'' = Some aq"
  shows "apply_top_of_book book u =
           (\<lparr>bids = (if 0 < bq then [(b, bq)] else []),
             asks = (if 0 < aq then [(a, aq)] else [])\<rparr>, Applied)"
  using assms
  by (simp add: apply_top_of_book_def upsert_def upsert_level_def empty_book_def)

theorem top_of_book_replaces_both_sides_witness:
  "apply_top_of_book \<lparr>bids = [(100.0, 10.0)], asks = [(101.0, 5.0)]\<rparr>
     [''b'' \<mapsto> JDec 100.5, ''B'' \<mapsto> JDec 12.0, ''a'' \<mapsto> JDec 101.5, ''A'' \<mapsto> JDec 6.0,
      ''s'' \<mapsto> JStr ''BTCUSDT'', ''u'' \<mapsto> JInt 12345] =
     (\<lparr>bids = [(100.5, 12.0)], asks = [(101.5, 6.0)]\<rparr>, Applied) \<and>
   apply_top_of_book \<lparr>bids = [(100.0, 10.0)], asks = [(101.0, 5.0)]\<rparr>
     [''b'' \<mapsto> JDec 100.5, ''B'' \<mapsto> JDec 0, ''a'' \<mapsto> JDec 101.5, ''A'' \<mapsto> JDec 6.0] =
     (\<lparr>bids = [], asks = [(101.5, 6.0)]\<rparr>, Applied)"
  using top_of_book_replaces_both_sides [of
      "[''b'' \<mapsto> JDec 100.5, ''B'' \<mapsto> JDec 12.0, ''a'' \<mapsto> JDec 101.5, ''A'' \<mapsto> JDec 6.0,
        ''s'' \<mapsto> JStr ''BTCUSDT'', ''u'' \<mapsto> JInt 12345]" "100.5" "12.0" "101.5" "6.0"
      "\<lparr>bids = [(100.0, 10.0)], asks = [(101.0, 5.0)]\<rparr>"]
    top_of_book_replaces_both_sides [of
      "[''b'' \<mapsto> JDec 100.5, ''B'' \<mapsto> JDec 0, ''a'' \<mapsto> JDec 101.5, ''A'' \<mapsto> JDec 6.0]"
      "100.5" 0 "101.5" "6.0" "\<lparr>bids = [(100.0, 10.0)], asks = [(101.0, 5.0)]\<rparr>"]
  by (simp add: decimal_field_def)

lemma collector_raises_before_writing:
  "snd (data_collector_book_ticker st m) \<noteq> None \<Longrightarrow> fst (data_collector_book_ticker st m) = st"
  by (simp add: data_collector_book_ticker_def Let_def split: sum.splits)

lemma float_item_missing: "m k = None \<Longrightarrow> float_item m k = Inl KeyError"
  by (simp add: float_item_def)

lemma collector_missing_field:
  assumes "m ''b'' = None \<or> m ''B'' = None \<or> m ''a'' = None \<or> m ''A'' = None"
  shows "snd (data_collector_book_ticker st m) \<noteq> None"
  using assms
  by (auto simp: data_collector_book_ticker_def Let_def float_item_missing split: sum.splits)

lemma decimal_field_missing: "u k = None \<Longrightarrow> decimal_field u k = None"
  by (simp add: decimal_field_def)

text \<open>
  C6. A top-of-book update that lacks one of the fields \<open>b\<close>, \<open>B\<close>, \<open>a\<close>, \<open>A\<close> is
  rejected by the store, which keeps both sides as they were; and the collector of
  \<open>plot_live.py\<close> raises on such a message before it has appended to any of its buffers,
  so these are unchanged too.
\<close>

theorem malformed_update_leaves_state:
  assumes "u ''b'' = None \<or> u ''B'' = None \<or> u ''a'' = None \<or> u ''A'' = None"
  shows "apply_top_of_book book u = (book, Rejected) \<and>
         fst (data_collector_book_ticker st u) = st \<and>
         snd (data_collector_book_ticker st u) \<noteq> None"
proof -
  from assms have "apply_top_of_book book u = (book, Rejected)"
    by (auto simp: apply_top_of_book_def decimal_field_missing split: option.splits)
  moreover from assms have "snd (data_collector_book_ticker st u) \<noteq> None"
    by (rule collector_missing_field)
  moreover from this have "fst (data_collector_book_ticker st u) = st"
    by (rule collector_raises_before_writing)
  ultimately show ?thesis by simp
qed

theorem malformed_update_leaves_state_witness:
  "([''b'' \<mapsto> JDec 100.5, ''B'' \<mapsto> JDec 12.0, ''a'' \<mapsto> JDec 101.5,
     ''_ts_received_ws'' \<mapsto> JInt 5] ''A'' = None) \<and>
   apply_top_of_book \<lparr>bids = [(100.0, 10.0)], asks = [(101.0, 5.0)]\<rparr>
     [''b'' \<mapsto> JDec 100.5, ''B'' \<mapsto> JDec 12.0, ''a'' \<mapsto> JDec 101.5,
      ''_ts_received_ws'' \<mapsto> JInt 5] =
     (\<lparr>bids = [(100.0, 10.0)], asks = [(101.0, 5.0)]\<rparr>, Rejected) \<and>
   data_collector_book_ticker
     \<lparr>timestamps = [1], mid_prices = [Some 100.5], spreads = [Some 1], imbalances = [None],
      vwaps = [None], trade_volumes_per_sec = [None], last_trade_prices = [None]\<rparr>
     [''b'' \<mapsto> JDec 100.5, ''B'' \<mapsto> JDec 12.0, ''a'' \<mapsto> JDec 101.5,
      ''_ts_received_ws'' \<mapsto> JInt 5] =
     (\<lparr>timestamps = [1], mid_prices = [Some 100.5], spreads = [Some 1], imbalances = [None],
       vwaps = [None], trade_volumes_per_sec = [None], last_trade_prices = [None]\<rparr>,
      Some KeyError)"
proof -
  let ?u = "[''b'' \<mapsto> JDec 100.5, ''B'' \<mapsto> JDec 12.0, ''a'' \<mapsto> JDec 101.5,
             ''_ts_received_ws'' \<mapsto> JInt 5]"
  let ?st = "\<lparr>timestamps = [1], mid_prices = [Some 100.5], spreads = [Some 1],
              imbalances = [None], vwaps = [None], trade_volumes_per_sec = [None],
              last_trade_prices = [None]\<rparr>"
  have missing: "?u ''A'' = None"
    by simp
  then have h: "?u ''b'' = None \<or> ?u ''B'' = None \<or> ?u ''a'' = None \<or> ?u ''A'' = None"
    by (intro disjI2)
  have raised: "snd (data_collector_book_ticker ?st ?u) = Some KeyError"
    by (simp add: data_collector_book_ticker_def int_item_def float_item_def)
  from malformed_update_leaves_state [OF h,
      of "\<lparr>bids = [(100.0, 10.0)], asks = [(101.0, 5.0)]\<rparr>" ?st]
  have "apply_top_of_book \<lparr>bids = [(100.0, 10.0)], asks = [(101.0, 5.0)]\<rparr> ?u =
          (\<lparr>bids = [(100.0, 10.0)], asks = [(101.0, 5.0)]\<rparr>, Rejected)"
    and "fst (data_collector_book_ticker ?st ?u) = ?st"
    by blast+
  with raised missing show ?thesis
    by (simp add: prod_eq_iff)
qed

end
